theory Spec2Isabelle
  imports Complex_Main
begin

section \<open>Values of the Python program\<close>

text \<open>
  A parsed JSON document, as \<open>request.get_json()\<close> returns it and as \<open>jsonify\<close>
  renders it. \<open>JNull\<close> is Python's \<open>None\<close>. A JSON real is a Python float; its value
  is kept as a rational, so rounding is not part of the model, only the kind of the
  number (int or float) and whether it is zero. A dict is an association list read
  with \<open>map_of\<close>. Strings are byte strings.
\<close>

datatype json =
    JNull
  | JBool bool
  | JInt int
  | JFloat rat
  | JStr string
  | JArr "json list"
  | JObj "(string \<times> json) list"

text \<open>Python truthiness, as \<open>if not data\<close>, \<open>if not device\<close>, \<open>if ts\<close> use it.\<close>

fun truthy :: "json \<Rightarrow> bool" where
  "truthy JNull = False"
| "truthy (JBool b) = b"
| "truthy (JInt n) = (n \<noteq> 0)"
| "truthy (JFloat x) = (x \<noteq> 0)"
| "truthy (JStr s) = (s \<noteq> [])"
| "truthy (JArr xs) = (xs \<noteq> [])"
| "truthy (JObj kvs) = (kvs \<noteq> [])"

fun type_name :: "json \<Rightarrow> string" where
  "type_name JNull = ''NoneType''"
| "type_name (JBool b) = ''bool''"
| "type_name (JInt n) = ''int''"
| "type_name (JFloat x) = ''float''"
| "type_name (JStr s) = ''str''"
| "type_name (JArr xs) = ''list''"
| "type_name (JObj kvs) = ''dict''"

text \<open>
  The exceptions the handlers can meet, each with the text \<open>str(e)\<close> gives.
  \<open>DatabaseError\<close> stands for every error the storage driver raises.
\<close>

datatype exn =
    AttributeError string
  | TypeError string
  | ValueError string
  | OverflowError string
  | DatabaseError string

fun str_exn :: "exn \<Rightarrow> string" where
  "str_exn (AttributeError m) = m"
| "str_exn (TypeError m) = m"
| "str_exn (ValueError m) = m"
| "str_exn (OverflowError m) = m"
| "str_exn (DatabaseError m) = m"

definition no_attribute :: "json \<Rightarrow> string \<Rightarrow> exn" where
  "no_attribute v a =
     AttributeError ([CHR 0x27] @ type_name v @ [CHR 0x27] @ '' object has no attribute ''
                     @ [CHR 0x27] @ a @ [CHR 0x27])"

definition not_iterable :: "json \<Rightarrow> exn" where
  "not_iterable v =
     TypeError ([CHR 0x27] @ type_name v @ [CHR 0x27] @ '' object is not iterable'')"

text \<open>\<open>v.get(key, default)\<close>: only a dict has the method.\<close>

fun py_get :: "json \<Rightarrow> string \<Rightarrow> json \<Rightarrow> exn + json" where
  "py_get (JObj kvs) k d = Inr (case map_of kvs k of None \<Rightarrow> d | Some v \<Rightarrow> v)"
| "py_get v k d = Inl (no_attribute v ''get'')"

text \<open>\<open>for r in v\<close>: a list gives its elements, a str its characters, a dict its keys.\<close>

fun py_iter :: "json \<Rightarrow> exn + json list" where
  "py_iter (JArr xs) = Inr xs"
| "py_iter (JStr s) = Inr (map (\<lambda>c. JStr [c]) s)"
| "py_iter (JObj kvs) = Inr (map (\<lambda>kv. JStr (fst kv)) kvs)"
| "py_iter v = Inl (not_iterable v)"

text \<open>\<open>len(v)\<close>.\<close>

fun py_len :: "json \<Rightarrow> exn + nat" where
  "py_len (JArr xs) = Inr (length xs)"
| "py_len (JStr s) = Inr (length s)"
| "py_len (JObj kvs) = Inr (length kvs)"
| "py_len v =
     Inl (TypeError (''object of type '' @ [CHR 0x27] @ type_name v @ [CHR 0x27] @ '' has no len()''))"

text \<open>\<open>ts.replace('Z', '+00:00')\<close> on a str: every \<open>Z\<close> is replaced.\<close>

definition replace_Z :: "string \<Rightarrow> string" where
  "replace_Z s = concat (map (\<lambda>c. if c = CHR ''Z'' then ''+00:00'' else [c]) s)"

subsection \<open>\<open>int(s)\<close> on a query parameter\<close>

text \<open>
  \<open>int\<close> of a str in base 10: surrounding whitespace is dropped, one sign is allowed,
  then digits, with single underscores between digits. Anything else raises
  \<open>ValueError\<close>. Only ASCII is modelled, and no bound on the number of digits; the
  text of the error quotes the argument without escapes.
\<close>

definition is_space :: "char \<Rightarrow> bool" where
  "is_space c = (c \<in> set [CHR 0x20, CHR 0x09, CHR 0x0A, CHR 0x0B, CHR 0x0C, CHR 0x0D,
                           CHR 0x1C, CHR 0x1D, CHR 0x1E, CHR 0x1F])"

definition is_digit :: "char \<Rightarrow> bool" where
  "is_digit c = (48 \<le> (of_char c :: nat) \<and> (of_char c :: nat) \<le> 57)"

definition digit_val :: "char \<Rightarrow> int" where
  "digit_val c = int (of_char c) - 48"

definition strip :: "string \<Rightarrow> string" where
  "strip s = rev (dropWhile is_space (rev (dropWhile is_space s)))"

fun parse_digits :: "string \<Rightarrow> int \<Rightarrow> bool \<Rightarrow> int option" where
  "parse_digits [] acc prev = (if prev then Some acc else None)"
| "parse_digits (c # cs) acc prev =
     (if is_digit c then parse_digits cs (acc * 10 + digit_val c) True
      else if c = CHR ''_'' \<and> prev \<and> cs \<noteq> [] then parse_digits cs acc False
      else None)"

definition invalid_literal :: "string \<Rightarrow> exn" where
  "invalid_literal s =
     ValueError (''invalid literal for int() with base 10: '' @ [CHR 0x27] @ s @ [CHR 0x27])"

definition py_int :: "string \<Rightarrow> exn + int" where
  "py_int s =
     (case strip s of
        [] \<Rightarrow> Inl (invalid_literal s)
      | c # cs \<Rightarrow>
          (if c = CHR ''-'' then
             (case parse_digits cs 0 False of None \<Rightarrow> Inl (invalid_literal s) | Some n \<Rightarrow> Inr (- n))
           else if c = CHR ''+'' then
             (case parse_digits cs 0 False of None \<Rightarrow> Inl (invalid_literal s) | Some n \<Rightarrow> Inr n)
           else
             (case parse_digits (c # cs) 0 False of None \<Rightarrow> Inl (invalid_literal s) | Some n \<Rightarrow> Inr n)))"

subsection \<open>Time\<close>

text \<open>
  A \<open>datetime\<close> is an instant, counted in microseconds from the epoch.
  \<open>datetime.now(timezone.utc) - timedelta(hours=h)\<close> raises \<open>OverflowError\<close> when the
  timedelta has more than 999999999 days or the result leaves the years 1 to 9999.
\<close>

type_synonym datetime = int

definition datetime_min :: datetime where
  "datetime_min = - 62135596800000000"

definition datetime_max :: datetime where
  "datetime_max = 253402300799999999"

definition hours_ago :: "datetime \<Rightarrow> int \<Rightarrow> exn + datetime" where
  "hours_ago now h =
     (if h div 24 < - 999999999 \<or> 999999999 < h div 24 then
        Inl (OverflowError ''days out of range; must have magnitude <= 999999999'')
      else if now - h * 3600000000 < datetime_min \<or> datetime_max < now - h * 3600000000 then
        Inl (OverflowError ''date value out of range'')
      else Inr (now - h * 3600000000))"

subsection \<open>Raising\<close>

text \<open>
  A computation that may raise returns \<open>Inl\<close> of the exception. \<open>and_then m f\<close> runs
  \<open>f\<close> on the result of \<open>m\<close> unless \<open>m\<close> raised.
\<close>

definition and_then :: "exn + 'a \<Rightarrow> ('a \<Rightarrow> exn + 'b) \<Rightarrow> exn + 'b" where
  "and_then m f = (case m of Inl e \<Rightarrow> Inl e | Inr x \<Rightarrow> f x)"

section \<open>The storage\<close>

text \<open>
  The two tables the statements name, with the columns of the data model: a reading has
  an integer \<open>co2\<close> and real \<open>temp\<close> and \<open>humidity\<close>, an event a text \<open>event_type\<close> and
  \<open>message\<close> and an integer \<open>uptime_seconds\<close>; \<open>created_at\<close> is always set, by the
  statement or by the column's default. A column that may be NULL is an option.
\<close>

record reading =
  r_device :: "string option"
  r_co2 :: "int option"
  r_temp :: "rat option"
  r_humidity :: "rat option"
  r_created_at :: datetime

record sensor_event =
  e_device :: "string option"
  e_event_type :: "string option"
  e_message :: "string option"
  e_uptime_seconds :: "int option"
  e_created_at :: datetime

record store =
  readings :: "reading list"
  sensor_events :: "sensor_event list"

text \<open>
  What the handlers take from outside the program: whether the storage can be reached
  (\<open>connect_error\<close> is the text of the driver's error when it cannot), the clock
  (\<open>clock k\<close> is what the \<open>k\<close>-th call of \<open>datetime.now(timezone.utc)\<close> of a request
  returns, \<open>db_now\<close> the default of \<open>created_at\<close>), the library's
  \<open>datetime.fromisoformat\<close> (\<open>None\<close> when it raises \<open>ValueError\<close>) and \<open>isoformat\<close>,
  and how the storage takes a parameter into a text, integer or real column: the value
  stored, or the text of the error it raises.
\<close>

record env =
  connect_error :: "string option"
  clock :: "nat \<Rightarrow> datetime"
  db_now :: datetime
  fromisoformat :: "string \<Rightarrow> datetime option"
  isoformat :: "datetime \<Rightarrow> string"
  text_in :: "json \<Rightarrow> string + string option"
  int_in :: "json \<Rightarrow> string + int option"
  float_in :: "json \<Rightarrow> string + rat option"

text \<open>\<open>get_db()\<close>: \<open>psycopg.connect\<close> raises when the storage cannot be reached.\<close>

definition get_db :: "env \<Rightarrow> exn + unit" where
  "get_db E = (case connect_error E of Some m \<Rightarrow> Inl (DatabaseError m) | None \<Rightarrow> Inr ())"

text \<open>
  \<open>with get_db() as conn: body\<close>. The body works on the storage; when it ends the
  connection commits, and when it raises the connection rolls back, so the caller
  sees the new storage only in a result \<open>Inr\<close>.
\<close>

definition with_db :: "env \<Rightarrow> store \<Rightarrow> (store \<Rightarrow> exn + 'a) \<Rightarrow> exn + 'a" where
  "with_db E S body = and_then (get_db E) (\<lambda>u. body S)"

text \<open>An error of the storage on a parameter is raised by the driver.\<close>

definition db_param :: "string + 'a \<Rightarrow> exn + 'a" where
  "db_param r = (case r of Inl m \<Rightarrow> Inl (DatabaseError m) | Inr x \<Rightarrow> Inr x)"

text \<open>The storage's reading of the parameters of one INSERT, in their order.\<close>

definition adapt_reading ::
  "env \<Rightarrow> json \<Rightarrow> json \<Rightarrow> json \<Rightarrow> json \<Rightarrow> datetime \<Rightarrow> exn + reading" where
  "adapt_reading E device co2 temp humidity created_at =
     and_then (db_param (text_in E device)) (\<lambda>d.
     and_then (db_param (int_in E co2)) (\<lambda>c.
     and_then (db_param (float_in E temp)) (\<lambda>t.
     and_then (db_param (float_in E humidity)) (\<lambda>h.
       Inr \<lparr>r_device = d, r_co2 = c, r_temp = t, r_humidity = h, r_created_at = created_at\<rparr>))))"

definition adapt_event :: "env \<Rightarrow> json \<Rightarrow> json \<Rightarrow> json \<Rightarrow> json \<Rightarrow> exn + sensor_event" where
  "adapt_event E device event_type message uptime =
     and_then (db_param (text_in E device)) (\<lambda>d.
     and_then (db_param (text_in E event_type)) (\<lambda>t.
     and_then (db_param (text_in E message)) (\<lambda>msg.
     and_then (db_param (int_in E uptime)) (\<lambda>u.
       Inr \<lparr>e_device = d, e_event_type = t, e_message = msg, e_uptime_seconds = u,
            e_created_at = db_now E\<rparr>))))"

text \<open>\<open>INSERT INTO readings (device, co2, temp, humidity) VALUES (...)\<close>.\<close>

definition insert_reading :: "env \<Rightarrow> store \<Rightarrow> json \<Rightarrow> json \<Rightarrow> json \<Rightarrow> json \<Rightarrow> exn + store" where
  "insert_reading E S device co2 temp humidity =
     and_then (adapt_reading E device co2 temp humidity (db_now E)) (\<lambda>row.
       Inr (S\<lparr>readings := readings S @ [row]\<rparr>))"

text \<open>\<open>INSERT INTO readings (device, co2, temp, humidity, created_at) VALUES (...)\<close>.\<close>

definition insert_reading_at ::
  "env \<Rightarrow> store \<Rightarrow> json \<times> json \<times> json \<times> json \<times> datetime \<Rightarrow> exn + store" where
  "insert_reading_at E S v =
     (case v of (device, co2, temp, humidity, created_at) \<Rightarrow>
        and_then (adapt_reading E device co2 temp humidity created_at) (\<lambda>row.
          Inr (S\<lparr>readings := readings S @ [row]\<rparr>)))"

text \<open>\<open>cur.executemany(statement, values)\<close>: the statement once for each tuple, in order.\<close>

fun executemany :: "env \<Rightarrow> store \<Rightarrow> (json \<times> json \<times> json \<times> json \<times> datetime) list \<Rightarrow> exn + store" where
  "executemany E S [] = Inr S"
| "executemany E S (v # vs) = and_then (insert_reading_at E S v) (\<lambda>S'. executemany E S' vs)"

text \<open>\<open>INSERT INTO sensor_events (device, event_type, message, uptime_seconds) VALUES (...)\<close>.\<close>

definition insert_event :: "env \<Rightarrow> store \<Rightarrow> json \<Rightarrow> json \<Rightarrow> json \<Rightarrow> json \<Rightarrow> exn + store" where
  "insert_event E S device event_type message uptime =
     and_then (adapt_event E device event_type message uptime) (\<lambda>row.
       Inr (S\<lparr>sensor_events := sensor_events S @ [row]\<rparr>))"

section \<open>Responses\<close>

text \<open>
  \<open>Response status body\<close> is what a handler returns: \<open>jsonify(body)\<close> with its status
  (200 when the handler gives none). \<open>Unhandled e\<close> is an exception that leaves the
  handler: the framework answers it with its own 500 page, which is not JSON.
  A POST handler starts from the document \<open>request.get_json()\<close> returned; a body the
  framework cannot read as JSON is answered by the framework itself and never
  reaches the lines modelled here. The lines the handlers print are not part of the
  model.
\<close>

datatype response = Response nat json | Unhandled exn

definition error_body :: "string \<Rightarrow> json" where
  "error_body m = JObj [(''error'', JStr m)]"

text \<open>
  The shape every handler has after its first checks:
  \<open>try: (body; return jsonify(...)) except Exception as e: return jsonify({'error': str(e)}), 500\<close>.
  The body gives the response and the storage it committed; when it raises, the
  storage is the one the request started with.
\<close>

definition try_500 :: "store \<Rightarrow> exn + response \<times> store \<Rightarrow> response \<times> store" where
  "try_500 S r = (case r of Inl e \<Rightarrow> (Response 500 (error_body (str_exn e)), S) | Inr x \<Rightarrow> x)"

text \<open>A statement outside every \<open>try\<close>: its exception leaves the handler.\<close>

definition or_unhandled :: "store \<Rightarrow> exn + 'a \<Rightarrow> ('a \<Rightarrow> response \<times> store) \<Rightarrow> response \<times> store" where
  "or_unhandled S m f = (case m of Inl e \<Rightarrow> (Unhandled e, S) | Inr x \<Rightarrow> f x)"

section \<open>The handlers of \<open>SCD4X/scd41-co2-monitor-local/local-sensor-api/sensor_api.py\<close>\<close>

definition health :: "env \<Rightarrow> store \<Rightarrow> response \<times> store" where
  "health E S =
     (case with_db E S (\<lambda>S0. Inr S0) of
        Inr S' \<Rightarrow>
          (Response 200 (JObj [(''status'', JStr ''ok''), (''database'', JStr ''connected'')]), S')
      | Inl e \<Rightarrow>
          (Response 500 (JObj [(''status'', JStr ''error''), (''database'', JStr (str_exn e))]), S))"

definition receive_single :: "env \<Rightarrow> store \<Rightarrow> json \<Rightarrow> response \<times> store" where
  "receive_single E S data =
     (if \<not> truthy data then (Response 400 (error_body ''No JSON data''), S)
      else or_unhandled S (py_get data ''device'' JNull) (\<lambda>device.
        if \<not> truthy device then (Response 400 (error_body ''Missing device name''), S)
        else try_500 S
          (and_then
             (with_db E S (\<lambda>S0.
                and_then (py_get data ''co2'' JNull) (\<lambda>co2.
                and_then (py_get data ''temp'' JNull) (\<lambda>temp.
                and_then (py_get data ''humidity'' JNull) (\<lambda>humidity.
                  insert_reading E S0 device co2 temp humidity)))))
             (\<lambda>S'. Inr (Response 200 (JObj [(''status'', JStr ''ok'')]), S')))))"

text \<open>
  The timestamp of one entry of a batch (the body of the loop up to \<open>created_at\<close>):
  \<open>k\<close> counts the calls of \<open>datetime.now\<close> made so far. Only \<open>ValueError\<close> is caught
  around the parse; \<open>ts.replace\<close> on a value that is not a str raises
  \<open>AttributeError\<close>, which leaves the loop.
\<close>

definition created_at_of :: "env \<Rightarrow> nat \<Rightarrow> json \<Rightarrow> exn + datetime \<times> nat" where
  "created_at_of E k ts =
     (if truthy ts then
        (case ts of
           JStr s \<Rightarrow>
             (case fromisoformat E (replace_Z s) of
                Some t \<Rightarrow> Inr (t, k)
              | None \<Rightarrow> Inr (clock E k, Suc k))
         | _ \<Rightarrow> Inl (no_attribute ts ''replace''))
      else Inr (clock E k, Suc k))"

text \<open>The loop \<open>for r in readings\<close> that fills \<open>values\<close>.\<close>

fun prepare_values ::
  "env \<Rightarrow> json \<Rightarrow> nat \<Rightarrow> json list \<Rightarrow> exn + (json \<times> json \<times> json \<times> json \<times> datetime) list" where
  "prepare_values E device k [] = Inr []"
| "prepare_values E device k (r # rs) =
     and_then (py_get r ''ts'' JNull) (\<lambda>ts.
     and_then (created_at_of E k ts) (\<lambda>ck.
     and_then (py_get r ''co2'' JNull) (\<lambda>co2.
     and_then (py_get r ''temp'' JNull) (\<lambda>temp.
     and_then (py_get r ''humidity'' JNull) (\<lambda>humidity.
     and_then (prepare_values E device (snd ck) rs) (\<lambda>vs.
       Inr ((device, co2, temp, humidity, fst ck) # vs)))))))"

definition receive_batch :: "env \<Rightarrow> store \<Rightarrow> json \<Rightarrow> response \<times> store" where
  "receive_batch E S data =
     (if \<not> truthy data then (Response 400 (error_body ''No JSON data''), S)
      else or_unhandled S (py_get data ''device'' JNull) (\<lambda>device.
           or_unhandled S (py_get data ''readings'' (JArr [])) (\<lambda>rdgs.
        if \<not> truthy device then (Response 400 (error_body ''Missing device name''), S)
        else if \<not> truthy rdgs then (Response 400 (error_body ''No readings provided''), S)
        else try_500 S
          (and_then
             (with_db E S (\<lambda>S0.
                and_then (py_iter rdgs) (\<lambda>rs.
                and_then (prepare_values E device 0 rs) (\<lambda>vs.
                  executemany E S0 vs))))
             (\<lambda>S'. case py_len rdgs of
                      Inl e \<Rightarrow> Inr (Response 500 (error_body (str_exn e)), S')
                    | Inr n \<Rightarrow>
                        Inr (Response 200 (JObj [(''status'', JStr ''ok''), (''stored'', JInt (int n))]),
                             S'))))))"

definition receive_event :: "env \<Rightarrow> store \<Rightarrow> json \<Rightarrow> response \<times> store" where
  "receive_event E S data =
     (if \<not> truthy data then (Response 400 (error_body ''No JSON data''), S)
      else or_unhandled S (py_get data ''device'' JNull) (\<lambda>device.
        if \<not> truthy device then (Response 400 (error_body ''Missing device name''), S)
        else or_unhandled S (py_get data ''event_type'' (JStr ''info'')) (\<lambda>event_type.
             or_unhandled S (py_get data ''message'' (JStr [])) (\<lambda>message.
             or_unhandled S (py_get data ''uptime'' JNull) (\<lambda>uptime.
          try_500 S
            (and_then
               (with_db E S (\<lambda>S0. insert_event E S0 device event_type message uptime))
               (\<lambda>S'. Inr (Response 200 (JObj [(''status'', JStr ''ok'')]), S'))))))))"

subsection \<open>The GET endpoints\<close>

text \<open>
  \<open>request.args\<close> is the list of the query string's pairs; \<open>args.get(k)\<close> is the first
  value of \<open>k\<close>. \<open>int(request.args.get(k, d))\<close> is \<open>d\<close> when \<open>k\<close> is absent.
\<close>

type_synonym args = "(string \<times> string) list"

definition int_arg :: "args \<Rightarrow> string \<Rightarrow> int \<Rightarrow> exn + int" where
  "int_arg a k d = (case map_of a k of None \<Rightarrow> Inr d | Some s \<Rightarrow> py_int s)"

text \<open>
  The first lines of every GET handler that takes a device:
  \<open>device = request.args.get('device')\<close>, and a 400 when it is absent or empty.
\<close>

definition with_device :: "store \<Rightarrow> args \<Rightarrow> (string \<Rightarrow> response \<times> store) \<Rightarrow> response \<times> store" where
  "with_device S a f =
     (case map_of a ''device'' of
        None \<Rightarrow> (Response 400 (error_body ''Missing device parameter''), S)
      | Some device \<Rightarrow>
          if device = [] then (Response 400 (error_body ''Missing device parameter''), S)
          else f device)"

text \<open>
  \<open>SELECT co2, temp, humidity, created_at FROM readings
   WHERE device = %s AND created_at >= %s ORDER BY created_at ASC\<close>.
  Rows of equal \<open>created_at\<close> come in the order of the table, one of the orders the
  storage may give them.
\<close>

definition select_readings :: "store \<Rightarrow> string \<Rightarrow> datetime \<Rightarrow> reading list" where
  "select_readings S device cutoff =
     sort_key r_created_at
       (filter (\<lambda>r. r_device r = Some device \<and> cutoff \<le> r_created_at r) (readings S))"

definition int_or_none :: "int option \<Rightarrow> json" where
  "int_or_none v = (case v of None \<Rightarrow> JNull | Some n \<Rightarrow> JInt n)"

definition str_or_none :: "string option \<Rightarrow> json" where
  "str_or_none v = (case v of None \<Rightarrow> JNull | Some s \<Rightarrow> JStr s)"

text \<open>\<open>float(x) if x is not None else None\<close>.\<close>

definition float_if_not_none :: "rat option \<Rightarrow> json" where
  "float_if_not_none v = (case v of None \<Rightarrow> JNull | Some x \<Rightarrow> JFloat x)"

text \<open>\<open>float(x) if x else None\<close>: a zero is falsy.\<close>

definition float_if_truthy :: "rat option \<Rightarrow> json" where
  "float_if_truthy v = (case v of None \<Rightarrow> JNull | Some x \<Rightarrow> if x \<noteq> 0 then JFloat x else JNull)"

text \<open>One object of the answer of \<open>get_readings\<close>; a datetime is always truthy.\<close>

definition reading_json :: "env \<Rightarrow> reading \<Rightarrow> json" where
  "reading_json E row =
     JObj [(''co2'', int_or_none (r_co2 row)),
           (''temp'', float_if_not_none (r_temp row)),
           (''humidity'', float_if_not_none (r_humidity row)),
           (''ts'', JStr (isoformat E (r_created_at row)))]"

definition get_readings :: "env \<Rightarrow> store \<Rightarrow> args \<Rightarrow> response \<times> store" where
  "get_readings E S a =
     with_device S a (\<lambda>device.
           or_unhandled S (int_arg a ''hours'' 24) (\<lambda>hours.
           or_unhandled S (hours_ago (clock E 0) hours) (\<lambda>cutoff.
        try_500 S
          (and_then
             (with_db E S (\<lambda>S0. Inr (select_readings S0 device cutoff)))
             (\<lambda>rows. Inr (Response 200 (JArr (map (reading_json E) rows)), S))))))"

text \<open>
  The two statements of \<open>get_events\<close>:
  \<open>SELECT event_type, message, uptime_seconds, created_at FROM sensor_events
   WHERE device = %s AND created_at >= %s [AND event_type = %s]
   ORDER BY created_at DESC LIMIT %s\<close>.
  The storage refuses a negative LIMIT and one beyond its 64-bit integers.
\<close>

definition limit_rows :: "int \<Rightarrow> 'a list \<Rightarrow> exn + 'a list" where
  "limit_rows n rows =
     (if n < 0 then Inl (DatabaseError ''LIMIT must not be negative'')
      else if 9223372036854775807 < n then Inl (DatabaseError ''bigint out of range'')
      else Inr (take (nat n) rows))"

definition select_events_typed ::
  "store \<Rightarrow> string \<Rightarrow> datetime \<Rightarrow> string \<Rightarrow> int \<Rightarrow> exn + sensor_event list" where
  "select_events_typed S device cutoff event_type n =
     limit_rows n
       (rev (sort_key e_created_at
          (filter (\<lambda>e. e_device e = Some device \<and> cutoff \<le> e_created_at e
                        \<and> e_event_type e = Some event_type) (sensor_events S))))"

definition select_events :: "store \<Rightarrow> string \<Rightarrow> datetime \<Rightarrow> int \<Rightarrow> exn + sensor_event list" where
  "select_events S device cutoff n =
     limit_rows n
       (rev (sort_key e_created_at
          (filter (\<lambda>e. e_device e = Some device \<and> cutoff \<le> e_created_at e) (sensor_events S))))"

definition event_json :: "env \<Rightarrow> sensor_event \<Rightarrow> json" where
  "event_json E row =
     JObj [(''event_type'', str_or_none (e_event_type row)),
           (''message'', str_or_none (e_message row)),
           (''uptime'', int_or_none (e_uptime_seconds row)),
           (''heap'', JNull),
           (''total_measurements'', JNull),
           (''ts'', JStr (isoformat E (e_created_at row)))]"

definition get_events :: "env \<Rightarrow> store \<Rightarrow> args \<Rightarrow> response \<times> store" where
  "get_events E S a =
     with_device S a (\<lambda>device.
           or_unhandled S (int_arg a ''hours'' 24) (\<lambda>hours.
           or_unhandled S (int_arg a ''limit'' 50) (\<lambda>limit.
           or_unhandled S (hours_ago (clock E 0) hours) (\<lambda>cutoff.
        try_500 S
          (and_then
             (with_db E S (\<lambda>S0.
                case map_of a ''type'' of
                  None \<Rightarrow> select_events S0 device cutoff limit
                | Some t \<Rightarrow>
                    if t \<noteq> [] then select_events_typed S0 device cutoff t limit
                    else select_events S0 device cutoff limit))
             (\<lambda>rows. Inr (Response 200 (JArr (map (event_json E) rows)), S)))))))"

text \<open>
  \<open>SELECT created_at FROM sensor_events WHERE device = %s AND LOWER(message) LIKE '%calibrat%'
   ORDER BY created_at DESC LIMIT 1\<close>, read with \<open>fetchone\<close>. \<open>LOWER\<close> is taken on the
  ASCII letters; a NULL message matches nothing.
\<close>

definition lower_char :: "char \<Rightarrow> char" where
  "lower_char c =
     (if 65 \<le> (of_char c :: nat) \<and> (of_char c :: nat) \<le> 90 then char_of ((of_char c :: nat) + 32)
      else c)"

definition sql_lower :: "string \<Rightarrow> string" where
  "sql_lower s = map lower_char s"

fun like_contains :: "string \<Rightarrow> string \<Rightarrow> bool" where
  "like_contains pat [] = (pat = [])"
| "like_contains pat (c # cs) = (take (length pat) (c # cs) = pat \<or> like_contains pat cs)"

definition is_calibration :: "string \<Rightarrow> sensor_event \<Rightarrow> bool" where
  "is_calibration device e =
     (e_device e = Some device \<and>
      (case e_message e of None \<Rightarrow> False | Some m \<Rightarrow> like_contains ''calibrat'' (sql_lower m)))"

definition select_calibration :: "store \<Rightarrow> string \<Rightarrow> sensor_event option" where
  "select_calibration S device =
     (case take 1 (rev (sort_key e_created_at (filter (is_calibration device) (sensor_events S)))) of
        [] \<Rightarrow> None
      | row # rest \<Rightarrow> Some row)"

definition get_last_calibration :: "env \<Rightarrow> store \<Rightarrow> args \<Rightarrow> response \<times> store" where
  "get_last_calibration E S a =
     with_device S a (\<lambda>device.
      try_500 S
        (and_then
           (with_db E S (\<lambda>S0. Inr (select_calibration S0 device)))
           (\<lambda>row. case row of
              Some r \<Rightarrow> Inr (Response 200 (JObj [(''date'', JStr (isoformat E (e_created_at r)))]), S)
            | None \<Rightarrow> Inr (Response 200 (JObj [(''date'', JNull)]), S))))"

text \<open>
  The aggregates of \<open>get_stats\<close> over the rows
  \<open>WHERE device = %s AND created_at >= %s\<close>: \<open>COUNT(*)\<close> counts the rows; \<open>AVG\<close>,
  \<open>MIN\<close> and \<open>MAX\<close> of a column skip its NULLs and are NULL when nothing is left.
\<close>

definition non_null :: "'a option list \<Rightarrow> 'a list" where
  "non_null xs = concat (map (\<lambda>x. case x of None \<Rightarrow> [] | Some v \<Rightarrow> [v]) xs)"

definition sql_avg :: "rat list \<Rightarrow> rat option" where
  "sql_avg ys = (if ys = [] then None else Some (sum_list ys / of_nat (length ys)))"

definition sql_min :: "('a::linorder) list \<Rightarrow> 'a option" where
  "sql_min ys = (case ys of [] \<Rightarrow> None | y # rest \<Rightarrow> Some (fold min rest y))"

definition sql_max :: "('a::linorder) list \<Rightarrow> 'a option" where
  "sql_max ys = (case ys of [] \<Rightarrow> None | y # rest \<Rightarrow> Some (fold max rest y))"

definition stats_rows :: "store \<Rightarrow> string \<Rightarrow> datetime \<Rightarrow> reading list" where
  "stats_rows S device cutoff =
     filter (\<lambda>r. r_device r = Some device \<and> cutoff \<le> r_created_at r) (readings S)"

text \<open>The one row the statement returns, \<open>row[0]\<close> to \<open>row[9]\<close>.\<close>

record stats_row =
  count :: nat
  avg_co2 :: "rat option"
  min_co2 :: "int option"
  max_co2 :: "int option"
  avg_temp :: "rat option"
  min_temp :: "rat option"
  max_temp :: "rat option"
  avg_humidity :: "rat option"
  min_humidity :: "rat option"
  max_humidity :: "rat option"

definition select_stats :: "store \<Rightarrow> string \<Rightarrow> datetime \<Rightarrow> stats_row" where
  "select_stats S device cutoff =
     (let rows = stats_rows S device cutoff in
      \<lparr>count = length rows,
       avg_co2 = sql_avg (map of_int (non_null (map r_co2 rows))),
       min_co2 = sql_min (non_null (map r_co2 rows)),
       max_co2 = sql_max (non_null (map r_co2 rows)),
       avg_temp = sql_avg (non_null (map r_temp rows)),
       min_temp = sql_min (non_null (map r_temp rows)),
       max_temp = sql_max (non_null (map r_temp rows)),
       avg_humidity = sql_avg (non_null (map r_humidity rows)),
       min_humidity = sql_min (non_null (map r_humidity rows)),
       max_humidity = sql_max (non_null (map r_humidity rows))\<rparr>)"

text \<open>The answer of \<open>get_stats\<close> from the row: \<open>if row and row[0] > 0\<close>.\<close>

definition stats_json :: "stats_row \<Rightarrow> json" where
  "stats_json row =
     (if 0 < count row then
        JObj [(''count'', JInt (int (count row))),
              (''co2'', JObj [(''avg'', float_if_truthy (avg_co2 row)),
                              (''min'', int_or_none (min_co2 row)),
                              (''max'', int_or_none (max_co2 row))]),
              (''temp'', JObj [(''avg'', float_if_truthy (avg_temp row)),
                               (''min'', float_if_truthy (min_temp row)),
                               (''max'', float_if_truthy (max_temp row))]),
              (''humidity'', JObj [(''avg'', float_if_truthy (avg_humidity row)),
                                   (''min'', float_if_truthy (min_humidity row)),
                                   (''max'', float_if_truthy (max_humidity row))])]
      else JObj [(''count'', JInt 0), (''co2'', JNull), (''temp'', JNull), (''humidity'', JNull)])"

definition get_stats :: "env \<Rightarrow> store \<Rightarrow> args \<Rightarrow> response \<times> store" where
  "get_stats E S a =
     with_device S a (\<lambda>device.
           or_unhandled S (int_arg a ''hours'' 24) (\<lambda>hours.
           or_unhandled S (hours_ago (clock E 0) hours) (\<lambda>cutoff.
        try_500 S
          (and_then
             (with_db E S (\<lambda>S0. Inr (select_stats S0 device cutoff)))
             (\<lambda>row. Inr (Response 200 (stats_json row), S))))))"

section \<open>The handlers of \<open>local-sensor-api/sensor_api.py\<close>\<close>

text \<open>
  The second file has the four handlers below and no GET endpoint but \<open>/health\<close>.
  Each is translated from its own text; the library and the storage are the same.
\<close>

definition health_local :: "env \<Rightarrow> store \<Rightarrow> response \<times> store" where
  "health_local E S =
     (case with_db E S (\<lambda>S0. Inr S0) of
        Inr S' \<Rightarrow>
          (Response 200 (JObj [(''status'', JStr ''ok''), (''database'', JStr ''connected'')]), S')
      | Inl e \<Rightarrow>
          (Response 500 (JObj [(''status'', JStr ''error''), (''database'', JStr (str_exn e))]), S))"

definition receive_single_local :: "env \<Rightarrow> store \<Rightarrow> json \<Rightarrow> response \<times> store" where
  "receive_single_local E S data =
     (if \<not> truthy data then (Response 400 (error_body ''No JSON data''), S)
      else or_unhandled S (py_get data ''device'' JNull) (\<lambda>device.
        if \<not> truthy device then (Response 400 (error_body ''Missing device name''), S)
        else try_500 S
          (and_then
             (with_db E S (\<lambda>S0.
                and_then (py_get data ''co2'' JNull) (\<lambda>co2.
                and_then (py_get data ''temp'' JNull) (\<lambda>temp.
                and_then (py_get data ''humidity'' JNull) (\<lambda>humidity.
                  insert_reading E S0 device co2 temp humidity)))))
             (\<lambda>S'. Inr (Response 200 (JObj [(''status'', JStr ''ok'')]), S')))))"

fun prepare_values_local ::
  "env \<Rightarrow> json \<Rightarrow> nat \<Rightarrow> json list \<Rightarrow> exn + (json \<times> json \<times> json \<times> json \<times> datetime) list" where
  "prepare_values_local E device k [] = Inr []"
| "prepare_values_local E device k (r # rs) =
     and_then (py_get r ''ts'' JNull) (\<lambda>ts.
     and_then
       (if truthy ts then
          (case ts of
             JStr s \<Rightarrow>
               (case fromisoformat E (replace_Z s) of
                  Some t \<Rightarrow> Inr (t, k)
                | None \<Rightarrow> Inr (clock E k, Suc k))
           | _ \<Rightarrow> Inl (no_attribute ts ''replace''))
        else Inr (clock E k, Suc k)) (\<lambda>ck.
     and_then (py_get r ''co2'' JNull) (\<lambda>co2.
     and_then (py_get r ''temp'' JNull) (\<lambda>temp.
     and_then (py_get r ''humidity'' JNull) (\<lambda>humidity.
     and_then (prepare_values_local E device (snd ck) rs) (\<lambda>vs.
       Inr ((device, co2, temp, humidity, fst ck) # vs)))))))"

definition receive_batch_local :: "env \<Rightarrow> store \<Rightarrow> json \<Rightarrow> response \<times> store" where
  "receive_batch_local E S data =
     (if \<not> truthy data then (Response 400 (error_body ''No JSON data''), S)
      else or_unhandled S (py_get data ''device'' JNull) (\<lambda>device.
           or_unhandled S (py_get data ''readings'' (JArr [])) (\<lambda>rdgs.
        if \<not> truthy device then (Response 400 (error_body ''Missing device name''), S)
        else if \<not> truthy rdgs then (Response 400 (error_body ''No readings provided''), S)
        else try_500 S
          (and_then
             (with_db E S (\<lambda>S0.
                and_then (py_iter rdgs) (\<lambda>rs.
                and_then (prepare_values_local E device 0 rs) (\<lambda>vs.
                  executemany E S0 vs))))
             (\<lambda>S'. case py_len rdgs of
                      Inl e \<Rightarrow> Inr (Response 500 (error_body (str_exn e)), S')
                    | Inr n \<Rightarrow>
                        Inr (Response 200 (JObj [(''status'', JStr ''ok''), (''stored'', JInt (int n))]),
                             S'))))))"

definition receive_event_local :: "env \<Rightarrow> store \<Rightarrow> json \<Rightarrow> response \<times> store" where
  "receive_event_local E S data =
     (if \<not> truthy data then (Response 400 (error_body ''No JSON data''), S)
      else or_unhandled S (py_get data ''device'' JNull) (\<lambda>device.
        if \<not> truthy device then (Response 400 (error_body ''Missing device name''), S)
        else or_unhandled S (py_get data ''event_type'' (JStr ''info'')) (\<lambda>event_type.
             or_unhandled S (py_get data ''message'' (JStr [])) (\<lambda>message.
             or_unhandled S (py_get data ''uptime'' JNull) (\<lambda>uptime.
          try_500 S
            (and_then
               (with_db E S (\<lambda>S0. insert_event E S0 device event_type message uptime))
               (\<lambda>S'. Inr (Response 200 (JObj [(''status'', JStr ''ok'')]), S'))))))))"

section \<open>A sample environment\<close>

text \<open>
  An environment for the worked examples: the storage is reachable and takes a str
  into a text column, an int into an integer column, an int or a float into a real
  column and \<open>None\<close> as NULL; the clock stands at 2026-01-16 21:46:40 UTC and moves a
  microsecond with each reading; the ISO parser knows the one timestamp of the
  specification's example, and \<open>isoformat\<close> is given on the two instants the examples
  render.
\<close>

definition sample_text_in :: "json \<Rightarrow> string + string option" where
  "sample_text_in v =
     (case v of JStr s \<Rightarrow> Inr (Some s) | JNull \<Rightarrow> Inr None | _ \<Rightarrow> Inl ''invalid input for type text'')"

definition sample_int_in :: "json \<Rightarrow> string + int option" where
  "sample_int_in v =
     (case v of JInt n \<Rightarrow> Inr (Some n) | JNull \<Rightarrow> Inr None
      | _ \<Rightarrow> Inl ''invalid input for type integer'')"

definition sample_float_in :: "json \<Rightarrow> string + rat option" where
  "sample_float_in v =
     (case v of JInt n \<Rightarrow> Inr (Some (of_int n)) | JFloat x \<Rightarrow> Inr (Some x) | JNull \<Rightarrow> Inr None
      | _ \<Rightarrow> Inl ''invalid input for type double precision'')"

definition sample_env :: env where
  "sample_env =
     \<lparr>connect_error = None,
      clock = (\<lambda>k. 1768600000000000 + int k),
      db_now = 1768600000000000,
      fromisoformat = (\<lambda>s. if s = ''2026-01-16T12:00:00+00:00'' then Some 1768564800000000 else None),
      isoformat = (\<lambda>t. if t = 1768564800000000 then ''2026-01-16T12:00:00+00:00''
                        else if t = 1768600000000000 then ''2026-01-16T21:46:40+00:00''
                        else []),
      text_in = sample_text_in,
      int_in = sample_int_in,
      float_in = sample_float_in\<rparr>"

definition empty_store :: store where
  "empty_store = \<lparr>readings = [], sensor_events = []\<rparr>"

section \<open>Notions used in the statements\<close>

text \<open>
  \<open>stored_as E v row\<close>: the storage takes the tuple \<open>v\<close> of \<open>values\<close> as the row
  \<open>row\<close>.
\<close>

definition stored_as :: "env \<Rightarrow> json \<times> json \<times> json \<times> json \<times> datetime \<Rightarrow> reading \<Rightarrow> bool" where
  "stored_as E v row =
     (case v of (device, co2, temp, humidity, created_at) \<Rightarrow>
        adapt_reading E device co2 temp humidity created_at = Inr row)"

text \<open>The batch of the specification's example, and a batch whose \<open>ts\<close> is a number.\<close>

definition sample_batch :: json where
  "sample_batch =
     JObj [(''device'', JStr ''office''),
           (''readings'', JArr [JObj [(''co2'', JInt 700), (''ts'', JStr ''2026-01-16T12:00:00Z'')],
                                JObj [(''co2'', JInt 710)]])]"

definition epoch_batch :: json where
  "epoch_batch =
     JObj [(''device'', JStr ''office''),
           (''readings'', JArr [JObj [(''co2'', JInt 700), (''ts'', JInt 1700000000)]])]"

text \<open>A JSON value that is a float or null.\<close>

fun float_or_null :: "json \<Rightarrow> bool" where
  "float_or_null JNull = True"
| "float_or_null (JFloat x) = True"
| "float_or_null v = False"

text \<open>Newest first: no element is older than a later one.\<close>

definition newest_first :: "datetime list \<Rightarrow> bool" where
  "newest_first ts = sorted_wrt (\<lambda>x y. y \<le> x) ts"

text \<open>A storage with one reading and two events of the device \<open>office\<close>.\<close>

definition office_store :: store where
  "office_store =
     \<lparr>readings =
        [\<lparr>r_device = Some ''office'', r_co2 = Some 800, r_temp = Some 22, r_humidity = Some 45,
          r_created_at = 1768564800000000\<rparr>],
      sensor_events =
        [\<lparr>e_device = Some ''office'', e_event_type = Some ''info'',
          e_message = Some ''Forced Calibration done'', e_uptime_seconds = Some 12345,
          e_created_at = 1768564800000000\<rparr>,
         \<lparr>e_device = Some ''office'', e_event_type = Some ''warning'',
          e_message = Some ''Sensor started'', e_uptime_seconds = None,
          e_created_at = 1768600000000000\<rparr>]\<rparr>"

fun is_float :: "json \<Rightarrow> bool" where
  "is_float (JFloat x) = True"
| "is_float v = False"

text \<open>
  \<open>float_present v j\<close>: the JSON value \<open>j\<close> renders the aggregate \<open>v\<close> as a float
  where \<open>v\<close> is a number other than zero, and as null where \<open>v\<close> is NULL.
\<close>

definition float_present :: "rat option \<Rightarrow> json \<Rightarrow> bool" where
  "float_present v j = ((v = None \<longrightarrow> j = JNull) \<and> (\<forall>x. v = Some x \<and> x \<noteq> 0 \<longrightarrow> j = JFloat x))"

text \<open>A storage whose one reading has a \<open>co2\<close> and nothing else, as \<open>{"co2": 700}\<close> gives.\<close>

definition co2_only_store :: store where
  "co2_only_store =
     \<lparr>readings =
        [\<lparr>r_device = Some ''office'', r_co2 = Some 700, r_temp = None, r_humidity = None,
          r_created_at = 1768564800000000\<rparr>],
      sensor_events = []\<rparr>"

text \<open>A storage whose one reading was taken at zero degrees.\<close>

definition frost_store :: store where
  "frost_store =
     \<lparr>readings =
        [\<lparr>r_device = Some ''office'', r_co2 = Some 700, r_temp = Some 0, r_humidity = Some 45,
          r_created_at = 1768564800000000\<rparr>],
      sensor_events = []\<rparr>"

section \<open>Properties\<close>

subsection \<open>Control flow\<close>

lemma or_unhandled_Inl: "or_unhandled S (Inl e) f = (Unhandled e, S)"
  by (simp add: or_unhandled_def)

lemma or_unhandled_Inr: "or_unhandled S (Inr x) f = f x"
  by (simp add: or_unhandled_def)

lemma and_then_Inl: "and_then (Inl e) f = Inl e"
  by (simp add: and_then_def)

lemma and_then_Inr: "and_then (Inr x) f = f x"
  by (simp add: and_then_def)

lemma with_device_Some: "map_of a ''device'' = Some d \<Longrightarrow> d \<noteq> [] \<Longrightarrow> with_device S a f = f d"
  by (simp add: with_device_def)

lemma py_int_abc: "py_int ''abc'' = Inl (invalid_literal ''abc'')"
  by (simp add: py_int_def strip_def is_space_def is_digit_def)

lemma py_int_ten: "py_int ''ten'' = Inl (invalid_literal ''ten'')"
  by (simp add: py_int_def strip_def is_space_def is_digit_def)

subsection \<open>A query parameter that is not an integer\<close>

text \<open>
  C10. The three GET handlers that read \<open>hours\<close> (and \<open>get_events\<close>, which also reads
  \<open>limit\<close>) convert it with \<open>int\<close> before their \<open>try\<close>. For a request with a device
  and an \<open>hours\<close> (or \<open>limit\<close>) on which \<open>int\<close> raises, the exception leaves the
  handler: the answer is not a JSON response of the handler at all, neither its 400
  nor its 500, and the storage is untouched.
\<close>

theorem bad_integer_parameter_unhandled:
  assumes "map_of a ''device'' = Some d" and "d \<noteq> []"
  shows "(map_of a ''hours'' = Some s \<and> py_int s = Inl e \<longrightarrow>
            get_readings E S a = (Unhandled e, S) \<and>
            get_events E S a = (Unhandled e, S) \<and>
            get_stats E S a = (Unhandled e, S))
       \<and> (int_arg a ''hours'' 24 = Inr h \<and> map_of a ''limit'' = Some s \<and> py_int s = Inl e \<longrightarrow>
            get_events E S a = (Unhandled e, S))
       \<and> (\<forall>status body. Unhandled e \<noteq> Response status body)"
  using assms
  by (simp add: get_readings_def get_events_def get_stats_def with_device_Some int_arg_def
      or_unhandled_Inl or_unhandled_Inr)

theorem bad_integer_parameter_unhandled_witness:
  "get_readings sample_env empty_store [(''device'', ''office''), (''hours'', ''abc'')]
     = (Unhandled (invalid_literal ''abc''), empty_store)
   \<and> get_events sample_env empty_store [(''device'', ''office''), (''hours'', ''abc'')]
     = (Unhandled (invalid_literal ''abc''), empty_store)
   \<and> get_stats sample_env empty_store [(''device'', ''office''), (''hours'', ''abc'')]
     = (Unhandled (invalid_literal ''abc''), empty_store)
   \<and> get_events sample_env empty_store [(''device'', ''office''), (''limit'', ''ten'')]
     = (Unhandled (invalid_literal ''ten''), empty_store)"
  using bad_integer_parameter_unhandled [of "[(''device'', ''office''), (''hours'', ''abc'')]"
      "''office''" "''abc''" "invalid_literal ''abc''" sample_env empty_store 24]
    bad_integer_parameter_unhandled [of "[(''device'', ''office''), (''limit'', ''ten'')]"
      "''office''" "''ten''" "invalid_literal ''ten''" sample_env empty_store 24]
  by (simp add: py_int_abc py_int_ten int_arg_def)

subsection \<open>Batch ingestion\<close>

lemma prepare_values_shape:
  "prepare_values E d k rs = Inr vs \<Longrightarrow> length vs = length rs \<and> map fst vs = replicate (length rs) d"
proof (induction rs arbitrary: k vs)
  case Nil
  then show ?case by simp
next
  case (Cons r rs)
  then show ?case
    by (fastforce simp: and_then_def split: sum.splits)
qed

lemma executemany_rows:
  "executemany E S vs = Inr S' \<Longrightarrow>
     \<exists>rows. S' = S\<lparr>readings := readings S @ rows\<rparr> \<and> list_all2 (stored_as E) vs rows"
proof (induction vs arbitrary: S)
  case Nil
  then show ?case by simp
next
  case (Cons v vs)
  from Cons.prems obtain S1 where s1: "insert_reading_at E S v = Inr S1"
    and rest: "executemany E S1 vs = Inr S'"
    by (auto simp: and_then_def split: sum.splits)
  from s1 obtain row where row: "stored_as E v row" and S1: "S1 = S\<lparr>readings := readings S @ [row]\<rparr>"
    by (auto simp: insert_reading_at_def stored_as_def and_then_def split: prod.splits sum.splits)
  from Cons.IH [OF rest] obtain rows where
    "S' = S1\<lparr>readings := readings S1 @ rows\<rparr>" and "list_all2 (stored_as E) vs rows"
    by blast
  then have "S' = S\<lparr>readings := readings S @ (row # rows)\<rparr> \<and> list_all2 (stored_as E) (v # vs) (row # rows)"
    using row S1 by simp
  then show ?case by blast
qed

lemma stored_as_device:
  "stored_as E v row \<Longrightarrow> text_in E (fst v) = Inr (r_device row) \<and> r_created_at row = snd (snd (snd (snd v)))"
  by (auto simp: stored_as_def adapt_reading_def and_then_def db_param_def split: prod.splits sum.splits)

lemma stored_rows_device:
  assumes "list_all2 (stored_as E) vs rows" and "map fst vs = replicate (length vs) d"
    and "text_in E d = Inr dv"
  shows "map r_device rows = replicate (length vs) dv"
  using assms
proof (induction vs rows rule: list_all2_induct)
  case Nil
  then show ?case by simp
next
  case (Cons v vs row rows)
  from Cons.prems have "fst v = d" and "map fst vs = replicate (length vs) d" by simp_all
  with Cons show ?case by (auto dest!: stored_as_device)
qed

lemma truthy_device_truthy_data:
  "py_get data ''device'' JNull = Inr dev \<Longrightarrow> truthy dev \<Longrightarrow> truthy data"
  by (cases data) auto

text \<open>A request that passes the three checks ends in the guarded section.\<close>

lemma receive_batch_validated:
  assumes dev: "py_get data ''device'' JNull = Inr dev" and tdev: "truthy dev"
    and rdgs: "py_get data ''readings'' (JArr []) = Inr rdgs" and trdgs: "truthy rdgs"
  shows "(\<exists>rs dv rows.
            rdgs = JArr rs \<and> rs \<noteq> [] \<and> text_in E dev = Inr dv \<and> length rows = length rs \<and>
            map r_device rows = replicate (length rs) dv \<and>
            receive_batch E S data =
              (Response 200 (JObj [(''status'', JStr ''ok''), (''stored'', JInt (int (length rs)))]),
               S\<lparr>readings := readings S @ rows\<rparr>))
       \<or> (\<exists>m. receive_batch E S data = (Response 500 (error_body m), S))"
proof -
  let ?body = "with_db E S (\<lambda>S0.
          and_then (py_iter rdgs) (\<lambda>rs.
          and_then (prepare_values E dev 0 rs) (\<lambda>vs.
            executemany E S0 vs)))"
  have data: "truthy data" using dev tdev by (rule truthy_device_truthy_data)
  have unfold: "receive_batch E S data =
      try_500 S (and_then ?body
       (\<lambda>S'. case py_len rdgs of
                Inl e \<Rightarrow> Inr (Response 500 (error_body (str_exn e)), S')
              | Inr n \<Rightarrow>
                  Inr (Response 200 (JObj [(''status'', JStr ''ok''), (''stored'', JInt (int n))]),
                       S')))"
    using data dev rdgs tdev trdgs by (simp add: receive_batch_def or_unhandled_def)
  show ?thesis
  proof (cases ?body)
    case (Inl e)
    then have "receive_batch E S data = (Response 500 (error_body (str_exn e)), S)"
      unfolding unfold by (simp add: try_500_def and_then_def)
    then show ?thesis by blast
  next
    case (Inr S')
    then obtain rs vs where it: "py_iter rdgs = Inr rs"
      and pv: "prepare_values E dev 0 rs = Inr vs"
      and ex: "executemany E S vs = Inr S'"
      by (auto simp: with_db_def and_then_def split: sum.splits)
    have arr: "rdgs = JArr rs \<and> rs \<noteq> []"
    proof (cases rdgs)
      case (JArr xs)
      with it trdgs show ?thesis by simp
    next
      case (JStr s)
      with it trdgs pv show ?thesis
        by (cases s) (auto simp: and_then_def)
    next
      case (JObj kvs)
      with it trdgs pv show ?thesis
        by (cases kvs) (auto simp: and_then_def)
    qed (use it in simp_all)
    from prepare_values_shape [OF pv]
    have len: "length vs = length rs" and devs: "map fst vs = replicate (length vs) dev"
      by simp_all
    from executemany_rows [OF ex] obtain rows where
      S': "S' = S\<lparr>readings := readings S @ rows\<rparr>" and rel: "list_all2 (stored_as E) vs rows"
      by blast
    from rel have lrows: "length rows = length vs" by (simp add: list_all2_lengthD)
    from arr len have "vs \<noteq> []" by auto
    then obtain v vs' where vs: "vs = v # vs'" by (cases vs) auto
    with rel obtain row rows' where "rows = row # rows'" and "stored_as E v row"
      by (auto simp: list_all2_Cons1)
    moreover from vs devs have "fst v = dev" by simp
    ultimately obtain dv where dv: "text_in E dev = Inr dv"
      using stored_as_device by blast
    from stored_rows_device [OF rel devs dv]
    have "map r_device rows = replicate (length rs) dv" using len by simp
    moreover have "receive_batch E S data =
        (Response 200 (JObj [(''status'', JStr ''ok''), (''stored'', JInt (int (length rs)))]),
         S\<lparr>readings := readings S @ rows\<rparr>)"
      unfolding unfold using Inr arr S' by (simp add: try_500_def and_then_def)
    ultimately show ?thesis
      using arr dv lrows len by auto
  qed
qed

text \<open>A request that fails a check is answered before the storage is opened.\<close>

lemma receive_batch_rejected:
  assumes "\<not> (\<exists>dev rdgs. py_get data ''device'' JNull = Inr dev \<and> truthy dev \<and>
                 py_get data ''readings'' (JArr []) = Inr rdgs \<and> truthy rdgs)"
  shows "(\<exists>m. receive_batch E S data = (Response 400 (error_body m), S))
       \<or> (\<exists>e. receive_batch E S data = (Unhandled e, S))"
proof (cases "truthy data")
  case False
  then have "receive_batch E S data = (Response 400 (error_body ''No JSON data''), S)"
    by (simp add: receive_batch_def)
  then show ?thesis by blast
next
  case data: True
  show ?thesis
  proof (cases "py_get data ''device'' JNull")
    case (Inl e)
    with data have "receive_batch E S data = (Unhandled e, S)"
      by (simp add: receive_batch_def or_unhandled_def)
    then show ?thesis by blast
  next
    case dev: (Inr dev)
    show ?thesis
    proof (cases "py_get data ''readings'' (JArr [])")
      case (Inl e)
      with data dev have "receive_batch E S data = (Unhandled e, S)"
        by (simp add: receive_batch_def or_unhandled_def)
      then show ?thesis by blast
    next
      case (Inr rdgs)
      with assms dev have "\<not> truthy dev \<or> \<not> truthy rdgs" by blast
      with data dev Inr have
        "receive_batch E S data = (Response 400 (error_body ''Missing device name''), S)
         \<or> receive_batch E S data = (Response 400 (error_body ''No readings provided''), S)"
        by (auto simp: receive_batch_def or_unhandled_def)
      then show ?thesis by blast
    qed
  qed
qed

lemma receive_batch_sample:
  "receive_batch sample_env empty_store sample_batch =
     (Response 200 (JObj [(''status'', JStr ''ok''), (''stored'', JInt 2)]),
      \<lparr>readings =
         [\<lparr>r_device = Some ''office'', r_co2 = Some 700, r_temp = None, r_humidity = None,
           r_created_at = 1768564800000000\<rparr>,
          \<lparr>r_device = Some ''office'', r_co2 = Some 710, r_temp = None, r_humidity = None,
           r_created_at = 1768600000000000\<rparr>],
       sensor_events = []\<rparr>)"
  by (simp add: receive_batch_def sample_batch_def sample_env_def empty_store_def or_unhandled_def
      try_500_def and_then_def with_db_def get_db_def created_at_of_def replace_Z_def
      insert_reading_at_def adapt_reading_def db_param_def sample_text_in_def sample_int_in_def
      sample_float_in_def)



text \<open>
  C3. When a batch request is answered with 200, its \<open>readings\<close> is a non-empty array
  and its device is truthy, the body is \<open>{status: "ok", stored: n}\<close> with \<open>n\<close> the
  length of the array, and the storage holds its former rows followed by exactly \<open>n\<close>
  new readings; the events are untouched.
\<close>

theorem batch_stored_count:
  assumes "receive_batch E S data = (Response 200 body, S')"
  shows "\<exists>dev rs. py_get data ''device'' JNull = Inr dev \<and> truthy dev \<and>
           py_get data ''readings'' (JArr []) = Inr (JArr rs) \<and> rs \<noteq> [] \<and>
           body = JObj [(''status'', JStr ''ok''), (''stored'', JInt (int (length rs)))] \<and>
           length (readings S') = length (readings S) + length rs \<and>
           take (length (readings S)) (readings S') = readings S \<and>
           sensor_events S' = sensor_events S"
proof (cases "\<exists>dev rdgs. py_get data ''device'' JNull = Inr dev \<and> truthy dev \<and>
                 py_get data ''readings'' (JArr []) = Inr rdgs \<and> truthy rdgs")
  case True
  then obtain dev rdgs where v: "py_get data ''device'' JNull = Inr dev" "truthy dev"
    "py_get data ''readings'' (JArr []) = Inr rdgs" "truthy rdgs" by blast
  from receive_batch_validated [OF v, of E S] assms
  obtain rs rows where "rdgs = JArr rs" "rs \<noteq> []" "length rows = length rs"
    "body = JObj [(''status'', JStr ''ok''), (''stored'', JInt (int (length rs)))]"
    "S' = S\<lparr>readings := readings S @ rows\<rparr>"
    by auto
  with v show ?thesis by auto
next
  case False
  from receive_batch_rejected [OF False, of E S] assms show ?thesis by auto
qed

theorem batch_stored_count_witness:
  "receive_batch sample_env empty_store sample_batch =
     (Response 200 (JObj [(''status'', JStr ''ok''), (''stored'', JInt 2)]),
      \<lparr>readings =
         [\<lparr>r_device = Some ''office'', r_co2 = Some 700, r_temp = None, r_humidity = None,
           r_created_at = 1768564800000000\<rparr>,
          \<lparr>r_device = Some ''office'', r_co2 = Some 710, r_temp = None, r_humidity = None,
           r_created_at = 1768600000000000\<rparr>],
       sensor_events = []\<rparr>)
   \<and> (\<exists>dev rs. py_get sample_batch ''device'' JNull = Inr dev \<and> truthy dev \<and>
           py_get sample_batch ''readings'' (JArr []) = Inr (JArr rs) \<and> length rs = 2)"
  using batch_stored_count [OF receive_batch_sample] receive_batch_sample
  by (auto simp: empty_store_def)

text \<open>
  C1, where the code departs from it. An entry whose \<open>ts\<close> is truthy and not a str (a
  number, as an epoch timestamp is) makes \<open>ts.replace\<close> raise \<open>AttributeError\<close>; the
  loop catches \<open>ValueError\<close> only, so the exception reaches the handler's outer
  \<open>except\<close>: whatever the environment and the storage, the whole batch is answered
  with 500 and nothing is stored.
\<close>

theorem batch_numeric_ts_rejected:
  "(\<exists>m. receive_batch E S epoch_batch = (Response 500 (error_body m), S))
   \<and> receive_batch sample_env empty_store epoch_batch =
       (Response 500 (error_body (str_exn (no_attribute (JInt 1700000000) ''replace''))), empty_store)"
proof
  have "receive_batch E S epoch_batch =
      (Response 500 (error_body (case connect_error E of
                                   Some m \<Rightarrow> m
                                 | None \<Rightarrow> str_exn (no_attribute (JInt 1700000000) ''replace''))), S)"
    by (simp add: receive_batch_def epoch_batch_def or_unhandled_def try_500_def and_then_def
        with_db_def get_db_def created_at_of_def split: option.splits)
  then show "\<exists>m. receive_batch E S epoch_batch = (Response 500 (error_body m), S)"
    by blast
  show "receive_batch sample_env empty_store epoch_batch =
       (Response 500 (error_body (str_exn (no_attribute (JInt 1700000000) ''replace''))), empty_store)"
    by (simp add: receive_batch_def epoch_batch_def or_unhandled_def try_500_def and_then_def
        with_db_def get_db_def created_at_of_def sample_env_def)
qed

text \<open>
  What the loop does with every other \<open>ts\<close>: a non-empty str that parses gives its
  timestamp, and an absent, falsy or unparseable one gives the clock.
\<close>

lemma created_at_of_parsed:
  "s \<noteq> [] \<Longrightarrow> fromisoformat E (replace_Z s) = Some t \<Longrightarrow> created_at_of E k (JStr s) = Inr (t, k)"
  by (simp add: created_at_of_def)

lemma created_at_of_fallback:
  "\<not> truthy ts \<or> (\<exists>s. ts = JStr s \<and> fromisoformat E (replace_Z s) = None) \<Longrightarrow>
     created_at_of E k ts = Inr (clock E k, Suc k)"
  by (auto simp: created_at_of_def)

subsection \<open>The two files\<close>

lemma prepare_values_local_eq: "prepare_values_local E d k rs = prepare_values E d k rs"
proof (induction rs arbitrary: k)
  case Nil
  show ?case by simp
next
  case (Cons r rs)
  have step: "(if truthy ts then
          (case ts of
             JStr s \<Rightarrow>
               (case fromisoformat E (replace_Z s) of
                  Some t \<Rightarrow> Inr (t, k)
                | None \<Rightarrow> Inr (clock E k, Suc k))
           | _ \<Rightarrow> Inl (no_attribute ts ''replace''))
        else Inr (clock E k, Suc k)) = created_at_of E k ts" for ts
    by (simp add: created_at_of_def)
  show ?case by (simp add: step Cons.IH)
qed

text \<open>
  C9. The four handlers the two files share answer every request alike and leave the
  storage alike, in every environment and from every storage.
\<close>

theorem local_handlers_equivalent:
  "health_local E S = health E S
   \<and> receive_single_local E S data = receive_single E S data
   \<and> receive_batch_local E S data = receive_batch E S data
   \<and> receive_event_local E S data = receive_event E S data"
  unfolding health_local_def health_def receive_single_local_def receive_single_def
    receive_batch_local_def receive_batch_def receive_event_local_def receive_event_def
    prepare_values_local_eq
  by (intro conjI refl)

subsection \<open>Reading back\<close>

lemma hours_ago_value: "hours_ago now h = Inr c \<Longrightarrow> c = now - h * 3600000000"
  by (simp add: hours_ago_def split: if_splits)

lemma get_readings_ok:
  assumes "map_of a ''device'' = Some d" and "d \<noteq> []"
    and "int_arg a ''hours'' 24 = Inr h" and "hours_ago (clock E 0) h = Inr c"
    and "connect_error E = None"
  shows "get_readings E S a = (Response 200 (JArr (map (reading_json E) (select_readings S d c))), S)"
  using assms
  by (simp add: get_readings_def with_device_Some or_unhandled_Inr try_500_def and_then_def
      with_db_def get_db_def)

text \<open>
  C6, as the code has it. For a readings query with a device and a window of \<open>h\<close>
  hours that reaches the storage, the answer is 200 with one object per reading of
  the device whose \<open>created_at\<close> is at least \<open>now - h\<close>, and no other; the objects
  come oldest first; each has exactly the fields \<open>co2\<close>, \<open>temp\<close>, \<open>humidity\<close>, \<open>ts\<close>;
  \<open>temp\<close> and \<open>humidity\<close> are a float or null, \<open>co2\<close> is the stored integer or null,
  and \<open>ts\<close> is the \<open>isoformat\<close> of \<open>created_at\<close>.
\<close>

theorem get_readings_window_sorted:
  assumes "map_of a ''device'' = Some d" and "d \<noteq> []"
    and "int_arg a ''hours'' 24 = Inr h" and "hours_ago (clock E 0) h = Inr c"
    and "connect_error E = None"
  shows "\<exists>rows. get_readings E S a = (Response 200 (JArr (map (reading_json E) rows)), S)
           \<and> c = clock E 0 - h * 3600000000
           \<and> set rows = {r \<in> set (readings S). r_device r = Some d \<and> c \<le> r_created_at r}
           \<and> sorted (map r_created_at rows)
           \<and> (\<forall>r \<in> set rows.
                  reading_json E r =
                    JObj [(''co2'', case r_co2 r of None \<Rightarrow> JNull | Some n \<Rightarrow> JInt n),
                          (''temp'', case r_temp r of None \<Rightarrow> JNull | Some x \<Rightarrow> JFloat x),
                          (''humidity'', case r_humidity r of None \<Rightarrow> JNull | Some x \<Rightarrow> JFloat x),
                          (''ts'', JStr (isoformat E (r_created_at r)))])"
proof -
  let ?rows = "select_readings S d c"
  have "get_readings E S a = (Response 200 (JArr (map (reading_json E) ?rows)), S)"
    using assms by (rule get_readings_ok)
  moreover have "c = clock E 0 - h * 3600000000"
    using assms(4) by (rule hours_ago_value)
  moreover have "set ?rows = {r \<in> set (readings S). r_device r = Some d \<and> c \<le> r_created_at r}"
    by (auto simp: select_readings_def)
  moreover have "sorted (map r_created_at ?rows)"
    by (simp add: select_readings_def)
  moreover have "reading_json E r =
                    JObj [(''co2'', case r_co2 r of None \<Rightarrow> JNull | Some n \<Rightarrow> JInt n),
                          (''temp'', case r_temp r of None \<Rightarrow> JNull | Some x \<Rightarrow> JFloat x),
                          (''humidity'', case r_humidity r of None \<Rightarrow> JNull | Some x \<Rightarrow> JFloat x),
                          (''ts'', JStr (isoformat E (r_created_at r)))]" for r
    by (simp add: reading_json_def int_or_none_def float_if_not_none_def)
  ultimately show ?thesis by blast
qed

lemma get_readings_office:
  "get_readings sample_env office_store [(''device'', ''office'')] =
     (Response 200
        (JArr [JObj [(''co2'', JInt 800), (''temp'', JFloat 22), (''humidity'', JFloat 45),
                     (''ts'', JStr ''2026-01-16T12:00:00+00:00'')]]),
      office_store)"
  by (simp add: get_readings_def with_device_def int_arg_def or_unhandled_def hours_ago_def
      datetime_min_def datetime_max_def try_500_def and_then_def with_db_def get_db_def
      select_readings_def reading_json_def int_or_none_def float_if_not_none_def
      sample_env_def office_store_def)

theorem get_readings_window_sorted_witness:
  "\<exists>rows. get_readings sample_env office_store [(''device'', ''office'')] =
            (Response 200 (JArr (map (reading_json sample_env) rows)), office_store)
          \<and> set rows = {r \<in> set (readings office_store).
                          r_device r = Some ''office'' \<and> 1768513600000000 \<le> r_created_at r}
          \<and> sorted (map r_created_at rows)"
proof -
  have c: "hours_ago (clock sample_env 0) 24 = Inr 1768513600000000"
    by (simp add: hours_ago_def sample_env_def datetime_min_def datetime_max_def)
  have "connect_error sample_env = None" by (simp add: sample_env_def)
  from get_readings_window_sorted [of "[(''device'', ''office'')]" "''office''" 24 sample_env
      1768513600000000 office_store, OF _ _ _ c this]
  show ?thesis by (simp add: int_arg_def) blast
qed

text \<open>
  C6 as stated fails on \<open>co2\<close>: the handler returns the stored integer, not a float.
\<close>

theorem get_readings_co2_not_float:
  "get_readings sample_env office_store [(''device'', ''office'')] =
     (Response 200
        (JArr [JObj [(''co2'', JInt 800), (''temp'', JFloat 22), (''humidity'', JFloat 45),
                     (''ts'', JStr ''2026-01-16T12:00:00+00:00'')]]),
      office_store)
   \<and> \<not> float_or_null (JInt 800)"
  by (simp add: get_readings_office)

subsection \<open>Events\<close>

lemma limit_rows_Inr: "limit_rows n xs = Inr rows \<Longrightarrow> 0 \<le> n \<and> rows = take (nat n) xs"
  by (simp add: limit_rows_def split: if_splits)

lemma newest_first_take_rev_sort: "newest_first (map f (take n (rev (sort_key f xs))))"
proof -
  have "sorted (map f (sort_key f xs))" by simp
  then have "sorted_wrt (\<lambda>x y. y \<le> x) (rev (map f (sort_key f xs)))"
    by (simp add: sorted_wrt_rev)
  then have "sorted_wrt (\<lambda>x y. y \<le> x) (take n (rev (map f (sort_key f xs))))"
    by (rule sorted_wrt_take)
  then show ?thesis by (simp add: newest_first_def take_map rev_map)
qed

lemma select_events_rows:
  assumes "select_events S d c n = Inr rows"
  shows "int (length rows) \<le> n \<and> set rows \<subseteq> set (sensor_events S)
         \<and> newest_first (map e_created_at rows)
         \<and> (\<forall>e \<in> set rows. e_device e = Some d \<and> c \<le> e_created_at e)"
proof -
  from assms have n: "0 \<le> n" and rows: "rows = take (nat n)
       (rev (sort_key e_created_at
          (filter (\<lambda>e. e_device e = Some d \<and> c \<le> e_created_at e) (sensor_events S))))"
    by (auto simp: select_events_def dest: limit_rows_Inr)
  have "set rows \<subseteq> {e \<in> set (sensor_events S). e_device e = Some d \<and> c \<le> e_created_at e}"
    unfolding rows using set_take_subset [of "nat n"] by fastforce
  moreover have "int (length rows) \<le> n" unfolding rows using n by simp
  moreover have "newest_first (map e_created_at rows)"
    unfolding rows by (rule newest_first_take_rev_sort)
  ultimately show ?thesis by auto
qed

lemma select_events_typed_rows:
  assumes "select_events_typed S d c t n = Inr rows"
  shows "int (length rows) \<le> n \<and> set rows \<subseteq> set (sensor_events S)
         \<and> newest_first (map e_created_at rows)
         \<and> (\<forall>e \<in> set rows. e_device e = Some d \<and> c \<le> e_created_at e \<and> e_event_type e = Some t)"
proof -
  from assms have n: "0 \<le> n" and rows: "rows = take (nat n)
       (rev (sort_key e_created_at
          (filter (\<lambda>e. e_device e = Some d \<and> c \<le> e_created_at e \<and> e_event_type e = Some t)
             (sensor_events S))))"
    by (auto simp: select_events_typed_def dest: limit_rows_Inr)
  have "set rows \<subseteq> {e \<in> set (sensor_events S).
                       e_device e = Some d \<and> c \<le> e_created_at e \<and> e_event_type e = Some t}"
    unfolding rows using set_take_subset [of "nat n"] by fastforce
  moreover have "int (length rows) \<le> n" unfolding rows using n by simp
  moreover have "newest_first (map e_created_at rows)"
    unfolding rows by (rule newest_first_take_rev_sort)
  ultimately show ?thesis by auto
qed

text \<open>What a 200 answer of \<open>get_events\<close> tells about the request and the query made.\<close>

lemma get_events_200:
  assumes "get_events E S a = (Response 200 body, S')"
  shows "\<exists>d h l c rows. map_of a ''device'' = Some d \<and> d \<noteq> [] \<and>
           int_arg a ''hours'' 24 = Inr h \<and> int_arg a ''limit'' 50 = Inr l \<and>
           hours_ago (clock E 0) h = Inr c \<and>
           (case map_of a ''type'' of
              None \<Rightarrow> select_events S d c l
            | Some t \<Rightarrow> if t \<noteq> [] then select_events_typed S d c t l else select_events S d c l)
             = Inr rows \<and>
           body = JArr (map (event_json E) rows) \<and> S' = S"
proof -
  from assms obtain d where d: "map_of a ''device'' = Some d" "d \<noteq> []"
    by (auto simp: get_events_def with_device_def split: option.splits if_splits)
  from assms d obtain h where h: "int_arg a ''hours'' 24 = Inr h"
    by (cases "int_arg a ''hours'' 24") (auto simp: get_events_def with_device_Some or_unhandled_def)
  from assms d h obtain l where l: "int_arg a ''limit'' 50 = Inr l"
    by (cases "int_arg a ''limit'' 50") (auto simp: get_events_def with_device_Some or_unhandled_def)
  from assms d h l obtain c where c: "hours_ago (clock E 0) h = Inr c"
    by (cases "hours_ago (clock E 0) h") (auto simp: get_events_def with_device_Some or_unhandled_def)
  let ?q = "case map_of a ''type'' of
              None \<Rightarrow> select_events S d c l
            | Some t \<Rightarrow> if t \<noteq> [] then select_events_typed S d c t l else select_events S d c l"
  have eq: "get_events E S a =
      try_500 S (and_then (with_db E S (\<lambda>S0. case map_of a ''type'' of
              None \<Rightarrow> select_events S0 d c l
            | Some t \<Rightarrow> if t \<noteq> [] then select_events_typed S0 d c t l else select_events S0 d c l))
        (\<lambda>rows. Inr (Response 200 (JArr (map (event_json E) rows)), S)))"
    using d h l c by (simp add: get_events_def with_device_Some or_unhandled_Inr)
  from assms obtain rows where "?q = Inr rows" "body = JArr (map (event_json E) rows)" "S' = S"
    unfolding eq
    by (auto simp: try_500_def and_then_def with_db_def error_body_def split: sum.splits)
  with d h l c show ?thesis by blast
qed

text \<open>
  C7, as the code has it. When an events query is answered with 200, the rows
  returned are events of the storage, at most \<open>limit\<close> of them (50 when the parameter
  is absent), newest first; and when \<open>type\<close> is given and not empty, every returned
  row has exactly that \<open>event_type\<close>, in the row and in the JSON object.
\<close>

theorem get_events_limit_type_order:
  assumes "get_events E S a = (Response 200 body, S')"
  shows "\<exists>l rows. int_arg a ''limit'' 50 = Inr l \<and> (map_of a ''limit'' = None \<longrightarrow> l = 50)
           \<and> body = JArr (map (event_json E) rows)
           \<and> int (length rows) \<le> l
           \<and> set rows \<subseteq> set (sensor_events S)
           \<and> newest_first (map e_created_at rows)
           \<and> (\<forall>t. map_of a ''type'' = Some t \<and> t \<noteq> [] \<longrightarrow>
                 (\<forall>e \<in> set rows. e_event_type e = Some t
                     \<and> py_get (event_json E e) ''event_type'' JNull = Inr (JStr t)))"
proof -
  from get_events_200 [OF assms] obtain d h l c rows where
    l: "int_arg a ''limit'' 50 = Inr l" and
    q: "(case map_of a ''type'' of
              None \<Rightarrow> select_events S d c l
            | Some t \<Rightarrow> if t \<noteq> [] then select_events_typed S d c t l else select_events S d c l)
             = Inr rows" and
    body: "body = JArr (map (event_json E) rows)"
    by blast
  have dflt: "map_of a ''limit'' = None \<longrightarrow> l = 50"
    using l by (auto simp: int_arg_def)
  have common: "int (length rows) \<le> l \<and> set rows \<subseteq> set (sensor_events S)
         \<and> newest_first (map e_created_at rows)"
    using q select_events_rows [of S d c l rows] select_events_typed_rows [of S d c _ l rows]
    by (auto split: option.splits if_splits)
  have "\<forall>e \<in> set rows. e_event_type e = Some t
                     \<and> py_get (event_json E e) ''event_type'' JNull = Inr (JStr t)"
    if "map_of a ''type'' = Some t" "t \<noteq> []" for t
    using q that select_events_typed_rows [of S d c t l rows]
    by (auto simp: event_json_def str_or_none_def)
  then have typed: "\<forall>t. map_of a ''type'' = Some t \<and> t \<noteq> [] \<longrightarrow>
                 (\<forall>e \<in> set rows. e_event_type e = Some t
                     \<and> py_get (event_json E e) ''event_type'' JNull = Inr (JStr t))"
    by blast
  show ?thesis
    by (intro exI [of _ l] exI [of _ rows] conjI) (use l dflt body common typed in simp_all)
qed

lemma get_events_office_info:
  "get_events sample_env office_store [(''device'', ''office''), (''type'', ''info''), (''limit'', ''1'')] =
     (Response 200
        (JArr [JObj [(''event_type'', JStr ''info''), (''message'', JStr ''Forced Calibration done''),
                     (''uptime'', JInt 12345), (''heap'', JNull), (''total_measurements'', JNull),
                     (''ts'', JStr ''2026-01-16T12:00:00+00:00'')]]),
      office_store)"
  by (simp add: get_events_def with_device_def int_arg_def py_int_def strip_def is_space_def
      is_digit_def digit_val_def or_unhandled_def hours_ago_def
      datetime_min_def datetime_max_def try_500_def and_then_def with_db_def get_db_def
      select_events_typed_def limit_rows_def event_json_def int_or_none_def str_or_none_def
      sample_env_def office_store_def)

theorem get_events_limit_type_order_witness:
  "get_events sample_env office_store [(''device'', ''office''), (''type'', ''info''), (''limit'', ''1'')] =
     (Response 200
        (JArr [JObj [(''event_type'', JStr ''info''), (''message'', JStr ''Forced Calibration done''),
                     (''uptime'', JInt 12345), (''heap'', JNull), (''total_measurements'', JNull),
                     (''ts'', JStr ''2026-01-16T12:00:00+00:00'')]]),
      office_store)
   \<and> (\<exists>l (rows :: sensor_event list).
         int_arg [(''device'', ''office''), (''type'', ''info''), (''limit'', ''1'')] ''limit'' 50 = Inr l
         \<and> int (length rows) \<le> l \<and> newest_first (map e_created_at rows)
         \<and> (\<forall>e \<in> set rows. e_event_type e = Some ''info''))"
proof -
  from get_events_limit_type_order [OF get_events_office_info]
  obtain l rows where
    "int_arg [(''device'', ''office''), (''type'', ''info''), (''limit'', ''1'')] ''limit'' 50 = Inr l"
    "int (length rows) \<le> l" "newest_first (map e_created_at rows)"
    "\<forall>t. map_of [(''device'', ''office''), (''type'', ''info''), (''limit'', ''1'')] ''type'' = Some t
          \<and> t \<noteq> [] \<longrightarrow> (\<forall>e \<in> set rows. e_event_type e = Some t
                     \<and> py_get (event_json sample_env e) ''event_type'' JNull = Inr (JStr t))"
    by blast
  moreover from this(4) have "\<forall>e \<in> set rows. e_event_type e = Some ''info''"
    by simp
  ultimately have
    "int_arg [(''device'', ''office''), (''type'', ''info''), (''limit'', ''1'')] ''limit'' 50 = Inr l
         \<and> int (length rows) \<le> l \<and> newest_first (map e_created_at rows)
         \<and> (\<forall>e \<in> set rows. e_event_type e = Some ''info'')"
    by simp
  then have "\<exists>l (rows :: sensor_event list).
      int_arg [(''device'', ''office''), (''type'', ''info''), (''limit'', ''1'')] ''limit'' 50 = Inr l
         \<and> int (length rows) \<le> l \<and> newest_first (map e_created_at rows)
         \<and> (\<forall>e \<in> set rows. e_event_type e = Some ''info'')"
    by blast
  with get_events_office_info show ?thesis by (rule conjI)
qed

text \<open>
  C7 as stated fails when \<open>type\<close> is given as the empty string: \<open>if event_type\<close> takes
  it for absent, the query is not filtered, and rows of other types are returned.
\<close>

theorem get_events_empty_type_unfiltered:
  "map_of [(''device'', ''office''), (''type'', [])] ''type'' = Some []
   \<and> get_events sample_env office_store [(''device'', ''office''), (''type'', [])] =
     (Response 200
        (JArr [JObj [(''event_type'', JStr ''warning''), (''message'', JStr ''Sensor started''),
                     (''uptime'', JNull), (''heap'', JNull), (''total_measurements'', JNull),
                     (''ts'', JStr ''2026-01-16T21:46:40+00:00'')],
               JObj [(''event_type'', JStr ''info''), (''message'', JStr ''Forced Calibration done''),
                     (''uptime'', JInt 12345), (''heap'', JNull), (''total_measurements'', JNull),
                     (''ts'', JStr ''2026-01-16T12:00:00+00:00'')]]),
      office_store)
   \<and> JStr ''warning'' \<noteq> JStr []"
  by (simp add: get_events_def with_device_def int_arg_def or_unhandled_def hours_ago_def
      datetime_min_def datetime_max_def try_500_def and_then_def with_db_def get_db_def
      select_events_def limit_rows_def event_json_def int_or_none_def str_or_none_def
      sample_env_def office_store_def)

subsection \<open>Last calibration\<close>

lemma like_contains_iff: "like_contains pat s \<longleftrightarrow> (\<exists>ps ss. s = ps @ pat @ ss)"
proof (induction s)
  case Nil
  show ?case by auto
next
  case (Cons c cs)
  have "take (length pat) (c # cs) = pat \<longleftrightarrow> (\<exists>ss. c # cs = pat @ ss)"
    by (metis append_eq_conv_conj append_take_drop_id)
  moreover have "(\<exists>ps ss. c # cs = ps @ pat @ ss) \<longleftrightarrow>
        (\<exists>ss. c # cs = pat @ ss) \<or> (\<exists>ps ss. cs = ps @ pat @ ss)"
  proof
    assume "\<exists>ps ss. c # cs = ps @ pat @ ss"
    then obtain ps ss where eq: "c # cs = ps @ pat @ ss" by blast
    show "(\<exists>ss. c # cs = pat @ ss) \<or> (\<exists>ps ss. cs = ps @ pat @ ss)"
    proof (cases ps)
      case Nil
      with eq show ?thesis by auto
    next
      case (Cons p ps')
      with eq have "cs = ps' @ pat @ ss" by simp
      then show ?thesis by blast
    qed
  next
    assume "(\<exists>ss. c # cs = pat @ ss) \<or> (\<exists>ps ss. cs = ps @ pat @ ss)"
    then show "\<exists>ps ss. c # cs = ps @ pat @ ss"
    proof
      assume "\<exists>ss. c # cs = pat @ ss"
      then obtain ss where "c # cs = [] @ pat @ ss" by auto
      then show ?thesis by blast
    next
      assume "\<exists>ps ss. cs = ps @ pat @ ss"
      then obtain ps ss where "c # cs = (c # ps) @ pat @ ss" by auto
      then show ?thesis by blast
    qed
  qed
  ultimately show ?case using Cons.IH by simp
qed

lemma sorted_le_last: "sorted xs \<Longrightarrow> y \<in> set xs \<Longrightarrow> y \<le> last xs"
  by (induction xs) auto

lemma newest_of_sorted:
  assumes "xs \<noteq> []"
  shows "f (hd (rev (sort_key f xs))) = Max (f ` set xs)"
proof -
  let ?ys = "sort_key f xs"
  have ne: "?ys \<noteq> []" using assms by (metis length_0_conv length_sort)
  have srt: "sorted (map f ?ys)" by simp
  have "f (hd (rev ?ys)) = last (map f ?ys)"
    using ne by (simp add: hd_rev last_map)
  also have "\<dots> = Max (set (map f ?ys))"
  proof (rule Max_eqI [symmetric])
    show "finite (set (map f ?ys))" by simp
    show "y \<le> last (map f ?ys)" if "y \<in> set (map f ?ys)" for y
      using srt that by (rule sorted_le_last)
    show "last (map f ?ys) \<in> set (map f ?ys)"
      using ne by (intro last_in_set) simp
  qed
  also have "\<dots> = Max (f ` set xs)" by simp
  finally show ?thesis .
qed

lemma select_calibration_newest:
  "select_calibration S d =
     (if filter (is_calibration d) (sensor_events S) = [] then None
      else Some (hd (rev (sort_key e_created_at (filter (is_calibration d) (sensor_events S))))))"
proof (cases "filter (is_calibration d) (sensor_events S) = []")
  case True
  then show ?thesis by (simp add: select_calibration_def)
next
  case False
  let ?ys = "rev (sort_key e_created_at (filter (is_calibration d) (sensor_events S)))"
  from False have "?ys \<noteq> []" by (metis length_0_conv length_sort rev_is_Nil_conv)
  then obtain y ys where "?ys = y # ys" by (cases ?ys) auto
  with False show ?thesis by (simp add: select_calibration_def)
qed

lemma is_calibration_iff:
  "is_calibration d e \<longleftrightarrow>
     e_device e = Some d \<and>
     (\<exists>m ps ss. e_message e = Some m \<and> map lower_char m = ps @ ''calibrat'' @ ss)"
  unfolding is_calibration_def like_contains_iff sql_lower_def
  by (cases "e_message e"; simp only: option.simps; blast)

text \<open>
  C8. For a calibration query with a device, answered by a reachable storage, the
  answer is 200 with \<open>{date: null}\<close> when no event of the device has a message that
  contains \<open>calibrat\<close> once lower-cased, and otherwise \<open>{date: t}\<close> with \<open>t\<close> the
  \<open>isoformat\<close> of the greatest \<open>created_at\<close> among those events.
\<close>

theorem get_last_calibration_newest:
  assumes "map_of a ''device'' = Some d" and "d \<noteq> []" and "connect_error E = None"
  shows "get_last_calibration E S a =
     (Response 200
        (JObj [(''date'',
           if {e \<in> set (sensor_events S). e_device e = Some d \<and>
                 (\<exists>m ps ss. e_message e = Some m \<and> map lower_char m = ps @ ''calibrat'' @ ss)} = {}
           then JNull
           else JStr (isoformat E (Max (e_created_at `
                  {e \<in> set (sensor_events S). e_device e = Some d \<and>
                     (\<exists>m ps ss. e_message e = Some m \<and> map lower_char m = ps @ ''calibrat'' @ ss)}))))]),
      S)"
proof -
  let ?C = "{e \<in> set (sensor_events S). e_device e = Some d \<and>
                 (\<exists>m ps ss. e_message e = Some m \<and> map lower_char m = ps @ ''calibrat'' @ ss)}"
  let ?xs = "filter (is_calibration d) (sensor_events S)"
  have set_xs: "set ?xs = ?C"
    using is_calibration_iff [of d] by auto
  have run: "get_last_calibration E S a =
      (case select_calibration S d of
         Some r \<Rightarrow> (Response 200 (JObj [(''date'', JStr (isoformat E (e_created_at r)))]), S)
       | None \<Rightarrow> (Response 200 (JObj [(''date'', JNull)]), S))"
    using assms
    by (simp add: get_last_calibration_def with_device_Some try_500_def and_then_def with_db_def
        get_db_def split: option.splits)
  show ?thesis
  proof (cases "?xs = []")
    case True
    then have "?C = {}" using set_xs by (metis set_empty)
    with True show ?thesis unfolding run by (simp add: select_calibration_newest)
  next
    case False
    then have "?C \<noteq> {}" using set_xs by (metis set_empty)
    moreover have "e_created_at (hd (rev (sort_key e_created_at ?xs))) = Max (e_created_at ` ?C)"
      using newest_of_sorted [OF False, of e_created_at] set_xs by simp
    ultimately show ?thesis using False unfolding run by (simp add: select_calibration_newest)
  qed
qed

lemma office_calibration_filter:
  "filter (is_calibration ''office'') (sensor_events office_store) =
     [\<lparr>e_device = Some ''office'', e_event_type = Some ''info'',
        e_message = Some ''Forced Calibration done'', e_uptime_seconds = Some 12345,
        e_created_at = 1768564800000000\<rparr>]"
  by code_simp

lemma office_calibration_events:
  "{e \<in> set (sensor_events office_store). e_device e = Some ''office'' \<and>
       (\<exists>m ps ss. e_message e = Some m \<and> map lower_char m = ps @ ''calibrat'' @ ss)}
   = {\<lparr>e_device = Some ''office'', e_event_type = Some ''info'',
        e_message = Some ''Forced Calibration done'', e_uptime_seconds = Some 12345,
        e_created_at = 1768564800000000\<rparr>}"
proof -
  have "{e \<in> set (sensor_events office_store). is_calibration ''office'' e}
        = set (filter (is_calibration ''office'') (sensor_events office_store))"
    by simp
  then show ?thesis
    unfolding office_calibration_filter is_calibration_iff by simp
qed

theorem get_last_calibration_newest_witness:
  "get_last_calibration sample_env office_store [(''device'', ''office'')] =
     (Response 200 (JObj [(''date'', JStr ''2026-01-16T12:00:00+00:00'')]), office_store)"
proof -
  have "connect_error sample_env = None" by (simp add: sample_env_def)
  from get_last_calibration_newest [of "[(''device'', ''office'')]" "''office''" sample_env office_store,
      OF _ _ this]
  have "get_last_calibration sample_env office_store [(''device'', ''office'')] =
     (Response 200
        (JObj [(''date'',
           if {e \<in> set (sensor_events office_store). e_device e = Some ''office'' \<and>
                 (\<exists>m ps ss. e_message e = Some m \<and> map lower_char m = ps @ ''calibrat'' @ ss)} = {}
           then JNull
           else JStr (isoformat sample_env (Max (e_created_at `
                  {e \<in> set (sensor_events office_store). e_device e = Some ''office'' \<and>
                     (\<exists>m ps ss. e_message e = Some m \<and> map lower_char m = ps @ ''calibrat'' @ ss)}))))]),
      office_store)"
    by simp
  then show ?thesis
    unfolding office_calibration_events by (simp add: sample_env_def)
qed

subsection \<open>Statistics\<close>

lemma get_stats_ok:
  assumes "map_of a ''device'' = Some d" and "d \<noteq> []"
    and "int_arg a ''hours'' 24 = Inr h" and "hours_ago (clock E 0) h = Inr c"
    and "connect_error E = None"
  shows "get_stats E S a = (Response 200 (stats_json (select_stats S d c)), S)"
  using assms
  by (simp add: get_stats_def with_device_Some or_unhandled_Inr try_500_def and_then_def
      with_db_def get_db_def)

lemma float_if_truthy_present: "float_present v (float_if_truthy v)"
  by (cases v) (simp_all add: float_present_def float_if_truthy_def)

lemma sql_avg_None_iff: "sql_avg (non_null col) = None \<longleftrightarrow> (\<forall>v \<in> set col. v = None)"
proof -
  have "non_null col = [] \<longleftrightarrow> (\<forall>v \<in> set col. v = None)"
    by (induction col) (auto simp: non_null_def split: option.splits)
  then show ?thesis by (simp add: sql_avg_def)
qed

lemma select_stats_count:
  "count (select_stats S d c) =
     length (filter (\<lambda>r. r_device r = Some d \<and> c \<le> r_created_at r) (readings S))"
  by (simp add: select_stats_def stats_rows_def Let_def)

lemma select_stats_avg_temp_None:
  "avg_temp (select_stats S d c) = None \<longleftrightarrow>
     (\<forall>r \<in> set (stats_rows S d c). r_temp r = None)"
  using sql_avg_None_iff [of "map r_temp (stats_rows S d c)"]
  by (simp add: select_stats_def Let_def)

text \<open>
  C4, as the code has it by design. For a stats query with a device that reaches the
  storage, the answer is 200. When no reading of the device lies in the window it is
  \<open>{count: 0, co2: null, temp: null, humidity: null}\<close>. When there is at least one,
  it is \<open>count\<close> and three objects \<open>{avg, min, max}\<close>: \<open>co2\<close> \<open>min\<close> and \<open>max\<close> are the
  aggregate as an integer, or null when it is NULL; every average and the \<open>min\<close> and
  \<open>max\<close> of \<open>temp\<close> and \<open>humidity\<close> are a float when the aggregate is a number other
  than zero, and null when it is NULL, which it is exactly when no row in the window
  has a value in that column. (What a zero aggregate gives is left open here.)
\<close>

theorem get_stats_shape:
  assumes "map_of a ''device'' = Some d" and "d \<noteq> []"
    and "int_arg a ''hours'' 24 = Inr h" and "hours_ago (clock E 0) h = Inr c"
    and "connect_error E = None"
  shows "\<exists>body. get_stats E S a = (Response 200 body, S)
     \<and> count (select_stats S d c) =
         length (filter (\<lambda>r. r_device r = Some d \<and> c \<le> r_created_at r) (readings S))
     \<and> (avg_temp (select_stats S d c) = None \<longleftrightarrow> (\<forall>r \<in> set (stats_rows S d c). r_temp r = None))
     \<and> (count (select_stats S d c) = 0 \<longrightarrow>
          body = JObj [(''count'', JInt 0), (''co2'', JNull), (''temp'', JNull), (''humidity'', JNull)])
     \<and> (0 < count (select_stats S d c) \<longrightarrow>
          (\<exists>ca ta tn tx ha hn hx.
             body =
               JObj [(''count'', JInt (int (count (select_stats S d c)))),
                     (''co2'', JObj [(''avg'', ca),
                                     (''min'', case min_co2 (select_stats S d c) of
                                                 None \<Rightarrow> JNull | Some n \<Rightarrow> JInt n),
                                     (''max'', case max_co2 (select_stats S d c) of
                                                 None \<Rightarrow> JNull | Some n \<Rightarrow> JInt n)]),
                     (''temp'', JObj [(''avg'', ta), (''min'', tn), (''max'', tx)]),
                     (''humidity'', JObj [(''avg'', ha), (''min'', hn), (''max'', hx)])]
             \<and> float_present (avg_co2 (select_stats S d c)) ca
             \<and> float_present (avg_temp (select_stats S d c)) ta
             \<and> float_present (min_temp (select_stats S d c)) tn
             \<and> float_present (max_temp (select_stats S d c)) tx
             \<and> float_present (avg_humidity (select_stats S d c)) ha
             \<and> float_present (min_humidity (select_stats S d c)) hn
             \<and> float_present (max_humidity (select_stats S d c)) hx))"
proof -
  let ?row = "select_stats S d c"
  have run: "get_stats E S a = (Response 200 (stats_json ?row), S)"
    using assms by (rule get_stats_ok)
  have zero: "stats_json ?row =
      JObj [(''count'', JInt 0), (''co2'', JNull), (''temp'', JNull), (''humidity'', JNull)]"
    if "count ?row = 0"
    using that by (simp add: stats_json_def)
  have pos: "\<exists>ca ta tn tx ha hn hx.
             stats_json ?row =
               JObj [(''count'', JInt (int (count ?row))),
                     (''co2'', JObj [(''avg'', ca),
                                     (''min'', case min_co2 ?row of None \<Rightarrow> JNull | Some n \<Rightarrow> JInt n),
                                     (''max'', case max_co2 ?row of None \<Rightarrow> JNull | Some n \<Rightarrow> JInt n)]),
                     (''temp'', JObj [(''avg'', ta), (''min'', tn), (''max'', tx)]),
                     (''humidity'', JObj [(''avg'', ha), (''min'', hn), (''max'', hx)])]
             \<and> float_present (avg_co2 ?row) ca
             \<and> float_present (avg_temp ?row) ta
             \<and> float_present (min_temp ?row) tn
             \<and> float_present (max_temp ?row) tx
             \<and> float_present (avg_humidity ?row) ha
             \<and> float_present (min_humidity ?row) hn
             \<and> float_present (max_humidity ?row) hx"
    if "0 < count ?row"
  proof (intro exI conjI)
    show "stats_json ?row =
               JObj [(''count'', JInt (int (count ?row))),
                     (''co2'', JObj [(''avg'', float_if_truthy (avg_co2 ?row)),
                                     (''min'', case min_co2 ?row of None \<Rightarrow> JNull | Some n \<Rightarrow> JInt n),
                                     (''max'', case max_co2 ?row of None \<Rightarrow> JNull | Some n \<Rightarrow> JInt n)]),
                     (''temp'', JObj [(''avg'', float_if_truthy (avg_temp ?row)),
                                      (''min'', float_if_truthy (min_temp ?row)),
                                      (''max'', float_if_truthy (max_temp ?row))]),
                     (''humidity'', JObj [(''avg'', float_if_truthy (avg_humidity ?row)),
                                          (''min'', float_if_truthy (min_humidity ?row)),
                                          (''max'', float_if_truthy (max_humidity ?row))])]"
      using that by (simp add: stats_json_def int_or_none_def)
  qed (rule float_if_truthy_present)+
  show ?thesis
    by (intro exI [of _ "stats_json ?row"] conjI impI run select_stats_count
        select_stats_avg_temp_None zero pos)
qed

lemma select_stats_office:
  "select_stats office_store ''office'' 1768513600000000 =
     \<lparr>count = 1, avg_co2 = Some 800, min_co2 = Some 800, max_co2 = Some 800,
      avg_temp = Some 22, min_temp = Some 22, max_temp = Some 22,
      avg_humidity = Some 45, min_humidity = Some 45, max_humidity = Some 45\<rparr>"
  by (simp add: select_stats_def stats_rows_def office_store_def non_null_def sql_avg_def
      sql_min_def sql_max_def)

theorem get_stats_shape_witness:
  "get_stats sample_env office_store [(''device'', ''office'')] =
     (Response 200
        (JObj [(''count'', JInt 1),
               (''co2'', JObj [(''avg'', JFloat 800), (''min'', JInt 800), (''max'', JInt 800)]),
               (''temp'', JObj [(''avg'', JFloat 22), (''min'', JFloat 22), (''max'', JFloat 22)]),
               (''humidity'', JObj [(''avg'', JFloat 45), (''min'', JFloat 45), (''max'', JFloat 45)])]),
      office_store)"
proof -
  have c: "hours_ago (clock sample_env 0) 24 = Inr 1768513600000000"
    by (simp add: hours_ago_def sample_env_def datetime_min_def datetime_max_def)
  have "connect_error sample_env = None" by (simp add: sample_env_def)
  from get_stats_shape [of "[(''device'', ''office'')]" "''office''" 24 sample_env
      1768513600000000 office_store, OF _ _ _ c this]
  show ?thesis
    unfolding select_stats_office by (auto simp: int_arg_def float_present_def)
qed

text \<open>
  C4 as stated fails where a metric has no value in the window: a reading stored from
  \<open>{"co2": 700}\<close> has no \<open>temp\<close>, the aggregates of \<open>temp\<close> are NULL, and the answer
  carries null, not a float, for its average, minimum and maximum.
\<close>

theorem get_stats_null_average:
  "get_stats sample_env co2_only_store [(''device'', ''office'')] =
     (Response 200
        (JObj [(''count'', JInt 1),
               (''co2'', JObj [(''avg'', JFloat 700), (''min'', JInt 700), (''max'', JInt 700)]),
               (''temp'', JObj [(''avg'', JNull), (''min'', JNull), (''max'', JNull)]),
               (''humidity'', JObj [(''avg'', JNull), (''min'', JNull), (''max'', JNull)])]),
      co2_only_store)
   \<and> \<not> is_float JNull"
  by (simp add: get_stats_def with_device_def int_arg_def or_unhandled_def hours_ago_def
      datetime_min_def datetime_max_def try_500_def and_then_def with_db_def get_db_def
      select_stats_def stats_rows_def stats_json_def non_null_def sql_avg_def sql_min_def
      sql_max_def float_if_truthy_def int_or_none_def sample_env_def co2_only_store_def)

text \<open>
  The case the statement above leaves open: \<open>float(x) if x else None\<close> also takes an
  aggregate equal to zero for absent, where \<open>get_readings\<close> tests \<open>is not None\<close>. A
  temperature of zero is reported as null by \<open>get_stats\<close>.
\<close>

lemma get_stats_zero_is_null:
  "get_stats sample_env frost_store [(''device'', ''office'')] =
     (Response 200
        (JObj [(''count'', JInt 1),
               (''co2'', JObj [(''avg'', JFloat 700), (''min'', JInt 700), (''max'', JInt 700)]),
               (''temp'', JObj [(''avg'', JNull), (''min'', JNull), (''max'', JNull)]),
               (''humidity'', JObj [(''avg'', JFloat 45), (''min'', JFloat 45), (''max'', JFloat 45)])]),
      frost_store)"
  by (simp add: get_stats_def with_device_def int_arg_def or_unhandled_def hours_ago_def
      datetime_min_def datetime_max_def try_500_def and_then_def with_db_def get_db_def
      select_stats_def stats_rows_def stats_json_def non_null_def sql_avg_def sql_min_def
      sql_max_def float_if_truthy_def int_or_none_def sample_env_def frost_store_def)

subsection \<open>A request without a device\<close>




end
